theory Spec2Isabelle
  imports Main "HOL-Library.Word"
begin

unbundle bit_operations_syntax

section \<open>Errors and log lines\<close>

text \<open>
  Go's \<open>error\<close> values that the controller can see.  \<open>ErrNotFound\<close> is the Job Store's
  answer for an absent record, \<open>ErrStore\<close> any other persistence failure, \<open>ErrCall\<close> a
  failure of the remote AIGC call, \<open>ErrSyntax\<close> and \<open>ErrRange\<close> the two errors of
  \<open>strconv.Atoi\<close>.
\<close>

datatype error =
    ErrNotFound
  | ErrStore string
  | ErrCall string
  | ErrSyntax
  | ErrRange

text \<open>
  One constructor for each \<open>logger.Printf\<close> call of the controller functions below; the
  argument is the error that is printed with \<open>%v\<close>.
\<close>

datatype log_line =
    failed_to_add_asset error
  | failed_to_call error
  | failed_to_update_asset error
  | failed_to_get_asset error

section \<open>The URL safety validator\<close>

subsection \<open>What \<open>Validate\<close> uses of Go's standard library\<close>

text \<open>
  \<open>net.IP\<close> is a byte slice of length 4 or 16.  The four classification methods that
  \<open>isIPPrivate\<close> calls are written out after package \<open>net\<close> of the Go distribution
  (they are not code of this repository).
\<close>

type_synonym IP = "8 word list"

definition isZeros :: "IP \<Rightarrow> bool" where
  "isZeros p = list_all (\<lambda>b. b = 0) p"

definition To4 :: "IP \<Rightarrow> IP option" where
  "To4 ip =
     (if length ip = 4 then Some ip
      else if length ip = 16 \<and> isZeros (take 10 ip) \<and> ip ! 10 = 0xff \<and> ip ! 11 = 0xff
           then Some (drop 12 ip)
      else None)"

definition IPv6loopback :: IP where
  "IPv6loopback = [0, 0, 0, 0, 0, 0, 0, 0, 0, 0, 0, 0, 0, 0, 0, 1]"

definition IsLoopback :: "IP \<Rightarrow> bool" where
  "IsLoopback ip =
     (case To4 ip of
        Some ip4 \<Rightarrow> ip4 ! 0 = 127
      | None \<Rightarrow> ip = IPv6loopback)"

definition IsLinkLocalUnicast :: "IP \<Rightarrow> bool" where
  "IsLinkLocalUnicast ip =
     (case To4 ip of
        Some ip4 \<Rightarrow> ip4 ! 0 = 169 \<and> ip4 ! 1 = 254
      | None \<Rightarrow> length ip = 16 \<and> ip ! 0 = 0xfe \<and> (ip ! 1) AND 0xc0 = 0x80)"

definition IsLinkLocalMulticast :: "IP \<Rightarrow> bool" where
  "IsLinkLocalMulticast ip =
     (case To4 ip of
        Some ip4 \<Rightarrow> ip4 ! 0 = 224 \<and> ip4 ! 1 = 0 \<and> ip4 ! 2 = 0
      | None \<Rightarrow> length ip = 16 \<and> ip ! 0 = 0xff \<and> (ip ! 1) AND 0x0f = 0x02)"

definition IsPrivate :: "IP \<Rightarrow> bool" where
  "IsPrivate ip =
     (case To4 ip of
        Some ip4 \<Rightarrow>
          ip4 ! 0 = 10
          \<or> (ip4 ! 0 = 172 \<and> (ip4 ! 1) AND 0xf0 = 16)
          \<or> (ip4 ! 0 = 192 \<and> ip4 ! 1 = 168)
      | None \<Rightarrow> length ip = 16 \<and> (ip ! 0) AND 0xfe = 0xfc)"

text \<open>
  \<open>url.Parse\<close>, \<open>(*URL).Hostname\<close> and \<open>net.LookupIP\<close> are taken as they come: the parser
  and the resolver are parameters of the model.  \<open>url_Parse\<close> gives \<open>None\<close> where Go
  returns a non-nil error, \<open>net_LookupIP\<close> likewise; of the parsed URL only the two
  fields that \<open>Validate\<close> reads are kept.
\<close>

record URL =
  Scheme :: string
  Host :: string

record net_env =
  url_Parse :: "string \<Rightarrow> URL option"
  url_Hostname :: "URL \<Rightarrow> string"
  net_LookupIP :: "string \<Rightarrow> IP list option"

subsection \<open>\<open>MattingParams.Validate\<close> and \<open>isIPPrivate\<close>\<close>

record MattingParams =
  ImageUrl :: string

definition isIPPrivate :: "IP \<Rightarrow> bool" where
  "isIPPrivate ip =
     (if IsLoopback ip \<or> IsLinkLocalUnicast ip \<or> IsLinkLocalMulticast ip \<or> IsPrivate ip
      then True else False)"

text \<open>The \<open>for _, ip := range ips\<close> loop of \<open>Validate\<close> with the final \<open>return true, ""\<close>.\<close>

fun Validate_ips :: "IP list \<Rightarrow> bool \<times> string" where
  "Validate_ips [] = (True, '''')"
| "Validate_ips (ip # ips) =
     (if isIPPrivate ip then (False, ''invalid imageUrl: private IP'')
      else Validate_ips ips)"

text \<open>
  \<open>Validate\<close> returns \<open>(ok, msg)\<close>; the model returns with it the list of host names
  that were handed to the resolver, so that "no DNS resolution happened" is the empty
  list.
\<close>

definition Validate :: "net_env \<Rightarrow> MattingParams \<Rightarrow> (bool \<times> string) \<times> string list" where
  "Validate env p =
     (if ImageUrl p = '''' then ((False, ''missing imageUrl''), [])
      else
        case url_Parse env (ImageUrl p) of
          None \<Rightarrow> ((False, ''invalid imageUrl''), [])
        | Some url \<Rightarrow>
            if Host url = '''' then ((False, ''invalid imageUrl''), [])
            else if Scheme url \<noteq> ''http'' \<and> Scheme url \<noteq> ''https''
              then ((False, ''invalid imageUrl: unsupported scheme''), [])
            else
              let hostname = url_Hostname env url in
              (case net_LookupIP env hostname of
                 None \<Rightarrow> ((False, ''invalid imageUrl: lookup IP failed''), [hostname])
               | Some ips \<Rightarrow> (Validate_ips ips, [hostname])))"

section \<open>The Job Store\<close>

datatype AssetType = AssetTypeSprite | AssetTypeBackdrop | AssetTypeOther nat

record Asset =
  ID :: string
  AssetType :: AssetType
  FilesHash :: string

text \<open>
  Decimal rendering of a row number, the way a store with an auto-increment key hands
  out its IDs.
\<close>

definition digit :: "nat \<Rightarrow> char" where
  "digit d = ''0123456789'' ! d"

function Itoa :: "nat \<Rightarrow> string" where
  "Itoa n = (if n < 10 then [digit n] else Itoa (n div 10) @ [digit (n mod 10)])"
  by pat_completeness auto
termination
  by (relation "measure (\<lambda>n. n)") auto

text \<open>
  The store: the job records by ID, the number of the next record, and the list of the
  writes to result markers that it has carried out, oldest first (\<open>(id, payload)\<close>).
\<close>

record db =
  rows :: "string \<rightharpoonup> Asset"
  next_id :: nat
  marker_writes :: "(string \<times> string) list"

text \<open>
  Modelled from the spec: \<open>model.AddAsset\<close>, \<open>model.UpdateAssetByID\<close> and
  \<open>model.CheckAssetFilesHashByID\<close> are the Job Store collaborator, whose code is missing
  from the sources.  The spec gives \<open>CreateJob(classification) -> (id, error)\<close> with a
  unique ID assigned at creation, \<open>UpdateJobResult(id, resultPayload) -> (record, error)\<close>
  which sets the result marker, and \<open>GetJob(id) -> (record, error)\<close> which fails with
  NotFound when the record is absent.  Create and update can fail for reasons of the
  store's own: the argument \<open>fault\<close> is \<open>Some msg\<close> for a call on which it does.
\<close>

definition AddAsset :: "string option \<Rightarrow> db \<Rightarrow> Asset \<Rightarrow> error + (db \<times> Asset)" where
  "AddAsset fault d a =
     (case fault of
        Some msg \<Rightarrow> Inl (ErrStore msg)
      | None \<Rightarrow>
          let a' = a\<lparr>ID := Itoa (next_id d)\<rparr>
          in Inr (d\<lparr>rows := (rows d)(ID a' \<mapsto> a'), next_id := Suc (next_id d)\<rparr>, a'))"

definition UpdateAssetByID :: "string option \<Rightarrow> db \<Rightarrow> string \<Rightarrow> Asset \<Rightarrow> error + (db \<times> Asset)" where
  "UpdateAssetByID fault d i a =
     (case fault of
        Some msg \<Rightarrow> Inl (ErrStore msg)
      | None \<Rightarrow>
          (case rows d i of
             None \<Rightarrow> Inl ErrNotFound
           | Some old \<Rightarrow>
               let a' = old\<lparr>FilesHash := FilesHash a\<rparr>
               in Inr (d\<lparr>rows := (rows d)(i \<mapsto> a'),
                         marker_writes := marker_writes d @ [(i, FilesHash a)]\<rparr>, a')))"

definition CheckAssetFilesHashByID :: "db \<Rightarrow> string \<Rightarrow> error + Asset" where
  "CheckAssetFilesHashByID d i =
     (case rows d i of None \<Rightarrow> Inl ErrNotFound | Some a \<Rightarrow> Inr a)"

section \<open>The job dispatcher and the status resolver\<close>

record GenerateParams =
  Category :: "string list"
  Keyword :: string
  Width :: int
  Height :: int

record GetGenerateParams =
  Category :: string
  Prompt :: string

record GetGenerateResult =
  ImageUrl :: string

record GenerateResult =
  ImageJobId :: string

datatype AssetStatus = waiting | generating | finish

record AIStatusFiles =
  ImageUrl :: string
  SkeletonUrl :: string

record AIStatusResult =
  JobId :: string
  Type :: AssetType
  Files :: AIStatusFiles

record GetAIAssetStatusResult =
  Status :: AssetStatus
  Result :: AIStatusResult

text \<open>
  The state that \<open>Generating\<close> works on: the store, and the goroutines that have been
  started and have not yet reached their \<open>UpdateAssetByID\<close>, each with the job ID and
  the request it has captured.
\<close>

record sys =
  store :: db
  tasks :: "(string \<times> GenerateParams) list"

text \<open>
  \<open>Generating\<close> up to its \<open>return\<close>.  The \<open>go func\<close> statement appends the new goroutine
  to \<open>tasks\<close>; the zero value of \<open>model.Asset\<close> has the empty string in \<open>ID\<close> and
  \<open>FilesHash\<close>.
\<close>

definition Generating ::
  "string option \<Rightarrow> sys \<Rightarrow> GenerateParams \<Rightarrow> (error + GenerateResult) \<times> sys \<times> log_line list" where
  "Generating fault s param =
     (let assetType =
            (if Height param > 0 \<and> Width param > 0 then AssetTypeBackdrop else AssetTypeSprite)
      in case AddAsset fault (store s) \<lparr>ID = '''', AssetType = assetType, FilesHash = ''''\<rparr> of
           Inl err \<Rightarrow> (Inl err, s, [failed_to_add_asset err])
         | Inr (d', newAIAsset) \<Rightarrow>
             (Inr \<lparr>ImageJobId = ID newAIAsset\<rparr>,
              s\<lparr>store := d', tasks := tasks s @ [(ID newAIAsset, param)]\<rparr>,
              []))"

text \<open>
  The body of the goroutine for the job \<open>i\<close>.  \<open>call\<close> is the remote service behind
  \<open>aigcClient.Call\<close> for \<open>POST /generate\<close>: it answers a request with an error or with
  the decoded response, and on an error \<open>generateResult\<close> keeps its zero value.
  \<open>StringArrayToString\<close> is defined elsewhere in the repository and is a parameter.
  There is no \<open>return\<close> after the log line of a failed call, so \<open>UpdateAssetByID\<close> is
  reached on both branches.  Its argument \<open>&model.Asset{FilesHash: ...}\<close> has zero values
  in the other fields.  The remote call does not touch the store, so the body is one step
  that happens at the moment of its \<open>UpdateAssetByID\<close>.
\<close>

definition Generating_go ::
  "(string list \<Rightarrow> string) \<Rightarrow> (GetGenerateParams \<Rightarrow> error + GetGenerateResult) \<Rightarrow> string option \<Rightarrow>
   db \<Rightarrow> string \<Rightarrow> GenerateParams \<Rightarrow> db \<times> log_line list" where
  "Generating_go StringArrayToString call fault d i param =
     (let (generateResult, log1) =
            (case call \<lparr>GetGenerateParams.Category = StringArrayToString (GenerateParams.Category param),
                        Prompt = Keyword param\<rparr> of
               Inl err \<Rightarrow> (\<lparr>GetGenerateResult.ImageUrl = ''''\<rparr>, [failed_to_call err])
             | Inr r \<Rightarrow> (r, []))
      in case UpdateAssetByID fault d i
                \<lparr>ID = '''', AssetType = AssetTypeSprite,
                 FilesHash = GetGenerateResult.ImageUrl generateResult\<rparr> of
           Inl err \<Rightarrow> (d, log1 @ [failed_to_update_asset err])
         | Inr (d', _) \<Rightarrow> (d', log1))"

definition GetAIAssetStatus ::
  "db \<Rightarrow> string \<Rightarrow> (error + GetAIAssetStatusResult) \<times> log_line list" where
  "GetAIAssetStatus d i =
     (case CheckAssetFilesHashByID d i of
        Inl err \<Rightarrow> (Inl err, [failed_to_get_asset err])
      | Inr result \<Rightarrow>
          let status = (if FilesHash result = '''' then generating else finish)
          in (Inr \<lparr>Status = status,
                   Result = \<lparr>JobId = i, Type = AssetType result,
                             Files = \<lparr>AIStatusFiles.ImageUrl = FilesHash result,
                                      SkeletonUrl = ''''\<rparr>\<rparr>\<rparr>, []))"

text \<open>
  What the core can do to the state: a call of \<open>Generating\<close>, or one of the started
  goroutines running its body.  \<open>GetAIAssetStatus\<close> only reads.
\<close>

inductive step :: "sys \<Rightarrow> sys \<Rightarrow> bool" where
  dispatch: "Generating fault s param = (r, s', l) \<Longrightarrow> step s s'"
| run: "tasks s = before @ (i, param) # after \<Longrightarrow>
        Generating_go sa call fault (store s) i param = (d', l) \<Longrightarrow>
        step s (s\<lparr>store := d', tasks := before @ after\<rparr>)"

text \<open>
  Well-formed states.  Every ID in the store was handed out by \<open>AddAsset\<close>, so it is the
  rendering of a number below \<open>next_id\<close>; the started goroutines belong to different
  jobs, and the job of each is in the store with an empty result marker.
\<close>

definition ids_below :: "db \<Rightarrow> bool" where
  "ids_below d \<longleftrightarrow> (\<forall>k. k \<in> dom (rows d) \<longrightarrow> (\<exists>n < next_id d. k = Itoa n))"

definition sys_ok :: "sys \<Rightarrow> bool" where
  "sys_ok s \<longleftrightarrow>
     ids_below (store s) \<and> distinct (map fst (tasks s)) \<and>
     (\<forall>i. i \<in> fst ` set (tasks s) \<longrightarrow> (\<exists>a. rows (store s) i = Some a \<and> FilesHash a = ''''))"

section \<open>Adding a user asset\<close>

subsection \<open>\<open>strconv.Atoi\<close>\<close>








subsection \<open>\<open>AddUserAsset\<close>\<close>







section \<open>Concrete inputs\<close>

text \<open>
  A parser and a resolver that know three URLs: the cloud metadata address, a host name
  that resolves to one public and one private address, and an \<open>ftp\<close> URL.
\<close>

definition scenario_env :: net_env where
  "scenario_env =
     \<lparr>url_Parse = (\<lambda>raw.
        if raw = ''http://169.254.169.254/latest/meta-data''
          then Some \<lparr>Scheme = ''http'', Host = ''169.254.169.254''\<rparr>
        else if raw = ''https://rebind.example:8443/a.png''
          then Some \<lparr>Scheme = ''https'', Host = ''rebind.example:8443''\<rparr>
        else if raw = ''ftp://10.0.0.1/a.png''
          then Some \<lparr>Scheme = ''ftp'', Host = ''10.0.0.1''\<rparr>
        else None),
      url_Hostname = (\<lambda>u. if Host u = ''rebind.example:8443'' then ''rebind.example'' else Host u),
      net_LookupIP = (\<lambda>h.
        if h = ''169.254.169.254'' then Some [[169, 254, 169, 254]]
        else if h = ''rebind.example'' then Some [[93, 184, 216, 34], [10, 0, 0, 1]]
        else if h = ''10.0.0.1'' then Some [[10, 0, 0, 1]]
        else None)\<rparr>"

text \<open>
  An empty store whose first record will be number 1, the request of the spec's scenario,
  and two remote services: one that answers every request with an image URL and one that
  is down.
\<close>

definition empty_db :: db where
  "empty_db = \<lparr>rows = Map.empty, next_id = 1, marker_writes = []\<rparr>"

definition empty_sys :: sys where
  "empty_sys = \<lparr>store = empty_db, tasks = []\<rparr>"

definition cat_request :: GenerateParams where
  "cat_request = \<lparr>GenerateParams.Category = [''animal''], Keyword = ''cat'', Width = 0, Height = 0\<rparr>"

definition call_ok :: "GetGenerateParams \<Rightarrow> error + GetGenerateResult" where
  "call_ok req = Inr \<lparr>GetGenerateResult.ImageUrl = ''https://cdn/x.png''\<rparr>"

definition call_down :: "GetGenerateParams \<Rightarrow> error + GetGenerateResult" where
  "call_down req = Inl (ErrCall ''connection refused'')"

text \<open>
  The state after the scenario's request has been dispatched on the empty store, and the
  stores that its goroutine leaves behind: with the service up, with the service down,
  and with the service up and the store failing the update.
\<close>

definition sys1 :: sys where
  "sys1 = fst (snd (Generating None empty_sys cat_request))"

definition db_after_ok :: db where
  "db_after_ok = fst (Generating_go concat call_ok None (store sys1) ''1'' cat_request)"

definition db_after_down :: db where
  "db_after_down = fst (Generating_go concat call_down None (store sys1) ''1'' cat_request)"

definition db_after_update_fault :: db where
  "db_after_update_fault =
     fst (Generating_go concat call_ok (Some ''deadlock'') (store sys1) ''1'' cat_request)"

text \<open>
  The state once the goroutine of the first job has written its result, and the state
  after a second request has been dispatched then.
\<close>

definition sys2 :: sys where
  "sys2 = sys1\<lparr>store := db_after_ok, tasks := []\<rparr>"

definition sys3 :: sys where
  "sys3 = fst (snd (Generating None sys2 cat_request))"


section \<open>Properties of the URL safety validator\<close>

lemma Validate_ips_private:
  "list_ex isIPPrivate ips \<Longrightarrow> Validate_ips ips = (False, ''invalid imageUrl: private IP'')"
  by (induction ips) auto

lemma isIPPrivate_iff:
  "isIPPrivate ip \<longleftrightarrow> IsLoopback ip \<or> IsLinkLocalUnicast ip \<or> IsLinkLocalMulticast ip \<or> IsPrivate ip"
  by (simp add: isIPPrivate_def)

lemma link_local_metadata: "To4 ip = Some [169, 254, 169, 254] \<Longrightarrow> isIPPrivate ip"
  by (simp add: isIPPrivate_def IsLinkLocalUnicast_def)

text \<open>
  C1, as amended.  Let the URL parse to \<open>u\<close> and let the resolver answer the host name of
  \<open>u\<close> with the addresses \<open>ips\<close>, at least one of which is loopback, link-local (unicast
  or multicast) or private; the other addresses may be anything.  Then \<open>Validate\<close> returns
  \<open>ok = false\<close>.  When moreover the input is not empty, the host of \<open>u\<close> is not empty and
  the scheme is \<open>http\<close> or \<open>https\<close>, so that \<open>Validate\<close> comes as far as the resolver,
  the reason is \<open>invalid imageUrl: private IP\<close>; otherwise an earlier check has given the
  reason.  In particular, with a parser that reads
  \<open>http://169.254.169.254/latest/meta-data\<close> as scheme \<open>http\<close> and host
  \<open>169.254.169.254\<close>, and a resolver that answers that literal with the address itself
  (4 bytes, or 16 bytes in the IPv4-mapped form), \<open>Validate\<close> returns
  \<open>(false, "invalid imageUrl: private IP")\<close>.
\<close>

theorem Validate_rejects_private_IP:
  "(url_Parse env (MattingParams.ImageUrl p) = Some u \<and>
    net_LookupIP env (url_Hostname env u) = Some ips \<and>
    list_ex (\<lambda>ip. IsLoopback ip \<or> IsLinkLocalUnicast ip \<or> IsLinkLocalMulticast ip \<or> IsPrivate ip) ips
    \<longrightarrow> \<not> fst (fst (Validate env p)) \<and>
        (MattingParams.ImageUrl p \<noteq> '''' \<and> Host u \<noteq> '''' \<and> (Scheme u = ''http'' \<or> Scheme u = ''https'')
         \<longrightarrow> Validate env p = ((False, ''invalid imageUrl: private IP''), [url_Hostname env u])))
   \<and>
   (url_Parse env ''http://169.254.169.254/latest/meta-data'' = Some u' \<and>
    Scheme u' = ''http'' \<and> Host u' = ''169.254.169.254'' \<and>
    net_LookupIP env (url_Hostname env u') = Some [ip'] \<and> To4 ip' = Some [169, 254, 169, 254]
    \<longrightarrow> fst (Validate env \<lparr>MattingParams.ImageUrl = ''http://169.254.169.254/latest/meta-data''\<rparr>)
          = (False, ''invalid imageUrl: private IP''))"
proof (intro conjI impI)
  assume h: "url_Parse env (MattingParams.ImageUrl p) = Some u \<and>
    net_LookupIP env (url_Hostname env u) = Some ips \<and>
    list_ex (\<lambda>ip. IsLoopback ip \<or> IsLinkLocalUnicast ip \<or> IsLinkLocalMulticast ip \<or> IsPrivate ip) ips"
  then have priv: "list_ex isIPPrivate ips"
    by (simp add: isIPPrivate_iff [abs_def])
  have ips: "Validate_ips ips = (False, ''invalid imageUrl: private IP'')"
    by (rule Validate_ips_private [OF priv])
  show "\<not> fst (fst (Validate env p))"
    using h ips by (simp add: Validate_def Let_def)
  assume "MattingParams.ImageUrl p \<noteq> '''' \<and> Host u \<noteq> '''' \<and> (Scheme u = ''http'' \<or> Scheme u = ''https'')"
  then show "Validate env p = ((False, ''invalid imageUrl: private IP''), [url_Hostname env u])"
    using h ips by (auto simp: Validate_def Let_def)
next
  assume h: "url_Parse env ''http://169.254.169.254/latest/meta-data'' = Some u' \<and>
    Scheme u' = ''http'' \<and> Host u' = ''169.254.169.254'' \<and>
    net_LookupIP env (url_Hostname env u') = Some [ip'] \<and> To4 ip' = Some [169, 254, 169, 254]"
  then have "isIPPrivate ip'" by (simp add: link_local_metadata)
  then show "fst (Validate env \<lparr>MattingParams.ImageUrl = ''http://169.254.169.254/latest/meta-data''\<rparr>)
          = (False, ''invalid imageUrl: private IP'')"
    using h by (simp add: Validate_def Let_def)
qed

theorem Validate_rejects_private_IP_witness:
  "\<not> fst (fst (Validate scenario_env \<lparr>MattingParams.ImageUrl = ''https://rebind.example:8443/a.png''\<rparr>))
   \<and> Validate scenario_env \<lparr>MattingParams.ImageUrl = ''https://rebind.example:8443/a.png''\<rparr>
       = ((False, ''invalid imageUrl: private IP''), [''rebind.example''])
   \<and> \<not> isIPPrivate [93, 184, 216, 34]
   \<and> fst (Validate scenario_env \<lparr>MattingParams.ImageUrl = ''http://169.254.169.254/latest/meta-data''\<rparr>)
       = (False, ''invalid imageUrl: private IP'')"
proof -
  have pub: "\<not> isIPPrivate [93, 184, 216, 34]"
    by (simp add: isIPPrivate_def IsLoopback_def IsLinkLocalUnicast_def IsLinkLocalMulticast_def
        IsPrivate_def To4_def)
  have priv: "IsPrivate [10, 0, 0, 1]"
    by (simp add: IsPrivate_def To4_def)
  show ?thesis
    using Validate_rejects_private_IP
      [of scenario_env "\<lparr>MattingParams.ImageUrl = ''https://rebind.example:8443/a.png''\<rparr>"
          "\<lparr>Scheme = ''https'', Host = ''rebind.example:8443''\<rparr>"
          "[[93, 184, 216, 34], [10, 0, 0, 1]]"
          "\<lparr>Scheme = ''http'', Host = ''169.254.169.254''\<rparr>"
          "[169, 254, 169, 254]"] pub priv
    by (simp add: scenario_env_def To4_def)
qed

text \<open>
  C1 as it was worded, at the input \<open>ftp://10.0.0.1/a.png\<close>: the URL parses, its host name
  resolves to the private address 10.0.0.1 alone, and \<open>Validate\<close> rejects it, but with the
  reason \<open>invalid imageUrl: unsupported scheme\<close>, not \<open>invalid imageUrl: private IP\<close>.
\<close>

theorem Validate_private_IP_reason_counterexample:
  "url_Parse scenario_env ''ftp://10.0.0.1/a.png'' = Some \<lparr>Scheme = ''ftp'', Host = ''10.0.0.1''\<rparr>
   \<and> net_LookupIP scenario_env (url_Hostname scenario_env \<lparr>Scheme = ''ftp'', Host = ''10.0.0.1''\<rparr>)
       = Some [[10, 0, 0, 1]]
   \<and> IsPrivate [10, 0, 0, 1]
   \<and> isIPPrivate [10, 0, 0, 1]
   \<and> fst (Validate scenario_env \<lparr>MattingParams.ImageUrl = ''ftp://10.0.0.1/a.png''\<rparr>)
       = (False, ''invalid imageUrl: unsupported scheme'')
   \<and> fst (Validate scenario_env \<lparr>MattingParams.ImageUrl = ''ftp://10.0.0.1/a.png''\<rparr>)
       \<noteq> (False, ''invalid imageUrl: private IP'')"
proof -
  have priv: "IsPrivate [10, 0, 0, 1]"
    by (simp add: IsPrivate_def To4_def)
  then have "isIPPrivate [10, 0, 0, 1]"
    by (simp add: isIPPrivate_def)
  with priv show ?thesis
    by (simp add: scenario_env_def Validate_def)
qed

text \<open>
  C7.  A non-empty input that parses with a non-empty host and a scheme that is neither
  \<open>http\<close> nor \<open>https\<close> is rejected with the reason
  \<open>invalid imageUrl: unsupported scheme\<close>, and the resolver is not called.  (The parser
  is a parameter here; Go's \<open>url.Parse\<close> gives the empty string an empty host, so for it
  the first hypothesis follows from the third.)
\<close>

theorem Validate_rejects_unsupported_scheme:
  "MattingParams.ImageUrl p \<noteq> '''' \<Longrightarrow> url_Parse env (MattingParams.ImageUrl p) = Some u \<Longrightarrow>
   Host u \<noteq> '''' \<Longrightarrow> Scheme u \<noteq> ''http'' \<Longrightarrow> Scheme u \<noteq> ''https'' \<Longrightarrow>
   Validate env p = ((False, ''invalid imageUrl: unsupported scheme''), [])"
  by (simp add: Validate_def)

theorem Validate_rejects_unsupported_scheme_witness:
  "Validate scenario_env \<lparr>MattingParams.ImageUrl = ''ftp://10.0.0.1/a.png''\<rparr>
     = ((False, ''invalid imageUrl: unsupported scheme''), [])"
  using Validate_rejects_unsupported_scheme
    [of "\<lparr>MattingParams.ImageUrl = ''ftp://10.0.0.1/a.png''\<rparr>" scenario_env
        "\<lparr>Scheme = ''ftp'', Host = ''10.0.0.1''\<rparr>"]
  by (simp add: scenario_env_def)

text \<open>
  C8, as amended.  For the empty input \<open>Validate\<close> returns \<open>ok = false\<close> with the reason
  \<open>missing imageUrl\<close>, whatever the parser and the resolver, and calls neither.
\<close>

theorem Validate_empty_input:
  "Validate env \<lparr>MattingParams.ImageUrl = ''''\<rparr> = ((False, ''missing imageUrl''), [])"
  by (simp add: Validate_def)

theorem Validate_empty_input_witness:
  "Validate scenario_env \<lparr>MattingParams.ImageUrl = ''''\<rparr> = ((False, ''missing imageUrl''), [])"
  using Validate_empty_input [of scenario_env] by simp

text \<open>The reason that \<open>Validate\<close> gives for the empty input is not \<open>missing URL\<close>.\<close>

theorem Validate_empty_input_counterexample:
  "fst (Validate scenario_env \<lparr>MattingParams.ImageUrl = ''''\<rparr>) \<noteq> (False, ''missing URL'')"
  by (simp add: Validate_def)

section \<open>Properties of the dispatcher and the resolver\<close>

subsection \<open>Job IDs are fresh\<close>

declare Itoa.simps [simp del]

lemma digit_inj: "a < 10 \<Longrightarrow> b < 10 \<Longrightarrow> digit a = digit b \<Longrightarrow> a = b"
  unfolding digit_def by (subst (asm) nth_eq_iff_index_eq) simp_all

lemma Itoa_not_Nil: "Itoa n \<noteq> []"
  by (subst Itoa.simps) simp

lemma Itoa_not_Nil2: "[] \<noteq> Itoa n"
  by (subst Itoa.simps) simp

lemma Itoa_inj: "Itoa n = Itoa m \<Longrightarrow> n = m"
proof (induction n arbitrary: m rule: Itoa.induct)
  case (1 n)
  show ?case
  proof (cases "n < 10")
    case True
    note n = this
    show ?thesis
    proof (cases "m < 10")
      case True
      with n "1.prems" show ?thesis
        by (simp add: Itoa.simps [of n] Itoa.simps [of m] digit_inj)
    next
      case False
      with n "1.prems" show ?thesis
        by (simp add: Itoa.simps [of n] Itoa.simps [of m] Itoa_not_Nil Itoa_not_Nil2)
    qed
  next
    case False
    note n = this
    show ?thesis
    proof (cases "m < 10")
      case True
      with n "1.prems" show ?thesis
        by (simp add: Itoa.simps [of n] Itoa.simps [of m] Itoa_not_Nil Itoa_not_Nil2)
    next
      case False
      with n "1.prems" have e: "Itoa (n div 10) = Itoa (m div 10)" and d: "digit (n mod 10) = digit (m mod 10)"
        by (simp_all add: Itoa.simps [of n] Itoa.simps [of m])
      from "1.IH" [OF n e] have "n div 10 = m div 10" .
      moreover from d have "n mod 10 = m mod 10" by (rule digit_inj [rotated 2]) simp_all
      ultimately show ?thesis by (metis div_mult_mod_eq)
    qed
  qed
qed

lemma fresh_id: "ids_below d \<Longrightarrow> rows d (Itoa (next_id d)) = None"
proof (rule ccontr)
  assume ok: "ids_below d" and "rows d (Itoa (next_id d)) \<noteq> None"
  then have "Itoa (next_id d) \<in> dom (rows d)" by (simp add: dom_def)
  with ok obtain n where "n < next_id d" "Itoa (next_id d) = Itoa n"
    unfolding ids_below_def by blast
  then show False using Itoa_inj by fastforce
qed

lemma Generating_created:
  "Generating None s param =
     (Inr \<lparr>ImageJobId = Itoa (next_id (store s))\<rparr>,
      s\<lparr>store := (store s)\<lparr>rows := (rows (store s))(Itoa (next_id (store s)) \<mapsto>
                    \<lparr>ID = Itoa (next_id (store s)),
                     AssetType = (if Height param > 0 \<and> Width param > 0 then AssetTypeBackdrop else AssetTypeSprite),
                     FilesHash = ''''\<rparr>),
                  next_id := Suc (next_id (store s))\<rparr>,
        tasks := tasks s @ [(Itoa (next_id (store s)), param)]\<rparr>,
      [])"
  by (simp add: Generating_def AddAsset_def Let_def)

lemma Generating_failed:
  "Generating (Some msg) s param = (Inl (ErrStore msg), s, [failed_to_add_asset (ErrStore msg)])"
  by (simp add: Generating_def AddAsset_def Let_def)

lemma ids_below_AddAsset:
  "ids_below d \<Longrightarrow> ids_below (d\<lparr>rows := (rows d)(Itoa (next_id d) \<mapsto> a), next_id := Suc (next_id d)\<rparr>)"
  unfolding ids_below_def by (auto simp: less_Suc_eq)

lemma sys_ok_dispatch:
  assumes "sys_ok s" and "Generating fault s param = (r, s', l)"
  shows "sys_ok s'"
proof (cases fault)
  case (Some msg)
  with assms show ?thesis by (simp add: Generating_failed)
next
  case None
  let ?k = "Itoa (next_id (store s))"
  from assms(1) have ids: "ids_below (store s)" by (simp add: sys_ok_def)
  have fresh: "rows (store s) ?k = None" by (rule fresh_id [OF ids])
  have notin: "?k \<notin> fst ` set (tasks s)"
    using assms(1) fresh unfolding sys_ok_def by auto
  from None assms(2) have s': "s' = s\<lparr>store := (store s)\<lparr>rows := (rows (store s))(?k \<mapsto>
                    \<lparr>ID = ?k,
                     AssetType = (if Height param > 0 \<and> Width param > 0 then AssetTypeBackdrop else AssetTypeSprite),
                     FilesHash = ''''\<rparr>),
                  next_id := Suc (next_id (store s))\<rparr>,
        tasks := tasks s @ [(?k, param)]\<rparr>"
    by (simp add: Generating_created)
  show ?thesis
    unfolding sys_ok_def
  proof (intro conjI allI impI)
    show "ids_below (store s')" using ids by (simp add: s' ids_below_AddAsset)
    show "distinct (map fst (tasks s'))" using assms(1) notin by (simp add: s' sys_ok_def)
    fix i assume "i \<in> fst ` set (tasks s')"
    then show "\<exists>a. rows (store s') i = Some a \<and> FilesHash a = ''''"
      using assms(1) by (auto simp: s' sys_ok_def)
  qed
qed

lemma Generating_go_rows:
  "Generating_go sa call fault d i param = (d', l) \<Longrightarrow>
   next_id d' = next_id d \<and> dom (rows d') = dom (rows d) \<and> (\<forall>k. k \<noteq> i \<longrightarrow> rows d' k = rows d k)"
  by (auto simp: Generating_go_def UpdateAssetByID_def Let_def
      split: sum.splits option.splits prod.splits if_splits)

lemma sys_ok_run:
  assumes ok: "sys_ok s" and t: "tasks s = before @ (i, param) # after"
    and go: "Generating_go sa call fault (store s) i param = (d', l)"
  shows "sys_ok (s\<lparr>store := d', tasks := before @ after\<rparr>)"
proof -
  note r = Generating_go_rows [OF go]
  from ok t have dist: "distinct (map fst (before @ (i, param) # after))"
    by (simp add: sys_ok_def)
  then have ni: "i \<notin> fst ` set (before @ after)" by auto
  from ok have "ids_below (store s)" by (simp add: sys_ok_def)
  with r have "ids_below d'" by (simp add: ids_below_def)
  moreover from dist have "distinct (map fst (before @ after))" by auto
  moreover have "\<exists>a. rows d' k = Some a \<and> FilesHash a = ''''" if "k \<in> fst ` set (before @ after)" for k
  proof -
    from that ni have "k \<noteq> i" by auto
    with r have "rows d' k = rows (store s) k" by simp
    moreover from that t have "k \<in> fst ` set (tasks s)" by auto
    ultimately show ?thesis using ok by (simp add: sys_ok_def)
  qed
  ultimately show ?thesis by (simp add: sys_ok_def)
qed

lemma sys_ok_step: "step s s' \<Longrightarrow> sys_ok s \<Longrightarrow> sys_ok s'"
  by (induction rule: step.induct) (auto intro: sys_ok_dispatch sys_ok_run)

lemma marker_step:
  assumes "step s s'" and "sys_ok s" and "rows (store s) k = Some a" and "FilesHash a \<noteq> ''''"
  shows "rows (store s') k = Some a"
  using assms
proof (induction rule: step.induct)
  case (dispatch fault s param r s' l)
  show ?case
  proof (cases fault)
    case (Some msg)
    with dispatch show ?thesis by (simp add: Generating_failed)
  next
    case None
    from dispatch have "ids_below (store s)" by (simp add: sys_ok_def)
    then have "rows (store s) (Itoa (next_id (store s))) = None" by (rule fresh_id)
    with dispatch have "k \<noteq> Itoa (next_id (store s))" by auto
    with None dispatch show ?thesis by (auto simp: Generating_created)
  qed
next
  case (run s before i param after sa call fault d' l)
  from run have "i \<in> fst ` set (tasks s)" by force
  with run obtain b where "rows (store s) i = Some b" "FilesHash b = ''''"
    unfolding sys_ok_def by blast
  with run have "k \<noteq> i" by auto
  with Generating_go_rows [OF run(2)] run show ?case by simp
qed

lemma marker_steps:
  "step\<^sup>*\<^sup>* s s' \<Longrightarrow> sys_ok s \<Longrightarrow> rows (store s) k = Some a \<Longrightarrow> FilesHash a \<noteq> '''' \<Longrightarrow>
   sys_ok s' \<and> rows (store s') k = Some a"
proof (induction rule: rtranclp_induct)
  case base
  then show ?case by simp
next
  case (step y z)
  then show ?case by (auto intro: sys_ok_step marker_step)
qed

subsection \<open>Values of the concrete inputs\<close>

lemma Itoa_1: "Itoa (Suc 0) = ''1''"
  by (simp add: Itoa.simps digit_def)

lemma sys1_eq:
  "sys1 = \<lparr>store = \<lparr>rows = [''1'' \<mapsto> \<lparr>ID = ''1'', AssetType = AssetTypeSprite, FilesHash = ''''\<rparr>],
                      next_id = 2, marker_writes = []\<rparr>,
           tasks = [(''1'', cat_request)]\<rparr>"
  by (simp add: sys1_def Generating_created empty_sys_def empty_db_def Itoa_1 cat_request_def)

lemma sys_ok_empty_sys: "sys_ok empty_sys"
  by (simp add: sys_ok_def ids_below_def empty_sys_def empty_db_def)

lemma step_empty_sys1: "step empty_sys sys1"
  by (rule step.dispatch [of None empty_sys cat_request _ _ "[]"])
    (simp add: sys1_def Generating_created)

lemma sys_ok_sys1: "sys_ok sys1"
  by (rule sys_ok_step [OF step_empty_sys1 sys_ok_empty_sys])

lemma db_after_ok_eq:
  "db_after_ok = \<lparr>rows = [''1'' \<mapsto> \<lparr>ID = ''1'', AssetType = AssetTypeSprite, FilesHash = ''https://cdn/x.png''\<rparr>],
                  next_id = 2, marker_writes = [(''1'', ''https://cdn/x.png'')]\<rparr>"
  by (simp add: db_after_ok_def sys1_eq Generating_go_def UpdateAssetByID_def call_ok_def Let_def)

lemma db_after_down_eq:
  "db_after_down = \<lparr>rows = [''1'' \<mapsto> \<lparr>ID = ''1'', AssetType = AssetTypeSprite, FilesHash = ''''\<rparr>],
                    next_id = 2, marker_writes = [(''1'', '''')]\<rparr>"
  by (simp add: db_after_down_def sys1_eq Generating_go_def UpdateAssetByID_def call_down_def Let_def)

lemma db_after_update_fault_eq: "db_after_update_fault = store sys1"
  by (simp add: db_after_update_fault_def sys1_eq Generating_go_def UpdateAssetByID_def call_ok_def Let_def)

subsection \<open>The claims\<close>

text \<open>
  C3.  \<open>Generating\<close> creates the job record before it returns.  When the store fails the
  creation, \<open>Generating\<close> returns that error and the state is as before: no record, no
  goroutine.  When the store creates the record, \<open>Generating\<close> returns a handle, the
  store at the moment of return holds a record under that handle whose ID is the handle,
  and exactly one goroutine has been started, for that job.
\<close>

theorem Generating_creates_record_first:
  "(fault = Some msg \<longrightarrow>
      Generating fault s param = (Inl (ErrStore msg), s, [failed_to_add_asset (ErrStore msg)]))
   \<and> (fault = None \<longrightarrow>
      (\<exists>h s'. Generating fault s param = (Inr h, s', [])
         \<and> (\<exists>a. rows (store s') (ImageJobId h) = Some a \<and> ID a = ImageJobId h)
         \<and> (\<exists>st. fst (GetAIAssetStatus (store s') (ImageJobId h)) = Inr st)
         \<and> tasks s' = tasks s @ [(ImageJobId h, param)]))"
  by (simp add: Generating_failed Generating_created GetAIAssetStatus_def
      CheckAssetFilesHashByID_def Let_def)

theorem Generating_creates_record_first_witness:
  "Generating (Some ''disk full'') empty_sys cat_request
     = (Inl (ErrStore ''disk full''), empty_sys, [failed_to_add_asset (ErrStore ''disk full'')])
   \<and> (\<exists>h s'. Generating None empty_sys cat_request = (Inr h, s', [])
         \<and> (\<exists>a. rows (store s') (ImageJobId h) = Some a \<and> ID a = ImageJobId h)
         \<and> (\<exists>st. fst (GetAIAssetStatus (store s') (ImageJobId h)) = Inr st)
         \<and> tasks s' = tasks empty_sys @ [(ImageJobId h, cat_request)])"
  using Generating_creates_record_first [of "Some ''disk full''" "''disk full''" empty_sys cat_request]
    Generating_creates_record_first [of None "''disk full''" empty_sys cat_request]
  by simp

text \<open>
  C4.  When the store finds the record \<open>a\<close> for the ID, \<open>GetAIAssetStatus\<close> succeeds; the
  status is \<open>generating\<close> when the result marker of \<open>a\<close> is empty and \<open>finish\<close> when it
  is not, and never \<open>waiting\<close>; the details carry the ID that was asked for, the asset
  type of \<open>a\<close>, the marker as image URL and the empty string as skeleton URL.
\<close>

theorem GetAIAssetStatus_found:
  "CheckAssetFilesHashByID d i = Inr a \<Longrightarrow>
   (\<exists>st. GetAIAssetStatus d i = (Inr st, [])
      \<and> (FilesHash a = '''' \<longrightarrow> Status st = generating)
      \<and> (FilesHash a \<noteq> '''' \<longrightarrow> Status st = finish)
      \<and> Status st \<noteq> waiting
      \<and> JobId (Result st) = i
      \<and> Type (Result st) = AssetType a
      \<and> AIStatusFiles.ImageUrl (Files (Result st)) = FilesHash a
      \<and> SkeletonUrl (Files (Result st)) = '''')"
  by (simp add: GetAIAssetStatus_def Let_def)

theorem GetAIAssetStatus_found_witness:
  "GetAIAssetStatus (store sys1) ''1''
     = (Inr \<lparr>Status = generating,
             Result = \<lparr>JobId = ''1'', Type = AssetTypeSprite,
                       Files = \<lparr>AIStatusFiles.ImageUrl = '''', SkeletonUrl = ''''\<rparr>\<rparr>\<rparr>, [])
   \<and> GetAIAssetStatus db_after_ok ''1''
     = (Inr \<lparr>Status = finish,
             Result = \<lparr>JobId = ''1'', Type = AssetTypeSprite,
                       Files = \<lparr>AIStatusFiles.ImageUrl = ''https://cdn/x.png'', SkeletonUrl = ''''\<rparr>\<rparr>\<rparr>, [])"
  using GetAIAssetStatus_found
      [of "store sys1" "''1''" "\<lparr>ID = ''1'', AssetType = AssetTypeSprite, FilesHash = ''''\<rparr>"]
    GetAIAssetStatus_found
      [of db_after_ok "''1''" "\<lparr>ID = ''1'', AssetType = AssetTypeSprite, FilesHash = ''https://cdn/x.png''\<rparr>"]
  by (auto simp: sys1_eq db_after_ok_eq CheckAssetFilesHashByID_def)

text \<open>
  C9.  For an ID that has no record in the store, \<open>GetAIAssetStatus\<close> fails with
  \<open>ErrNotFound\<close>, which it also logs; and whatever error the store's lookup returns is the
  error that \<open>GetAIAssetStatus\<close> returns.
\<close>

theorem GetAIAssetStatus_absent:
  "(rows d i = None \<longrightarrow>
      GetAIAssetStatus d i = (Inl ErrNotFound, [failed_to_get_asset ErrNotFound]))
   \<and> (CheckAssetFilesHashByID d i = Inl e \<longrightarrow> fst (GetAIAssetStatus d i) = Inl e)"
  by (simp add: GetAIAssetStatus_def CheckAssetFilesHashByID_def)

theorem GetAIAssetStatus_absent_witness:
  "GetAIAssetStatus (store sys1) ''2'' = (Inl ErrNotFound, [failed_to_get_asset ErrNotFound])
   \<and> fst (GetAIAssetStatus empty_db ''1'') = Inl ErrNotFound"
  using GetAIAssetStatus_absent [of "store sys1" "''2''" ErrNotFound]
    GetAIAssetStatus_absent [of empty_db "''1''" ErrNotFound]
  by (simp add: sys1_eq empty_db_def CheckAssetFilesHashByID_def)

text \<open>
  C5.  When the store creates the record, its asset type is \<open>AssetTypeBackdrop\<close> exactly
  when width and height are both positive and \<open>AssetTypeSprite\<close> otherwise, so it is
  \<open>AssetTypeSprite\<close> for width 0 and height 0; the ID that is returned was not in use in
  a well-formed store; and \<open>GetAIAssetStatus\<close> on that ID, asked on the store as
  \<open>Generating\<close> leaves it, answers \<open>generating\<close>.
\<close>

theorem Generating_classification:
  "Generating None s param = (r, s', l) \<Longrightarrow>
   (\<exists>a. r = Inr \<lparr>ImageJobId = ID a\<rparr> \<and> rows (store s') (ID a) = Some a
      \<and> (AssetType a = AssetTypeBackdrop \<longleftrightarrow> Width param > 0 \<and> Height param > 0)
      \<and> (AssetType a = AssetTypeSprite \<longleftrightarrow> \<not> (Width param > 0 \<and> Height param > 0))
      \<and> (Width param = 0 \<and> Height param = 0 \<longrightarrow> AssetType a = AssetTypeSprite)
      \<and> (ids_below (store s) \<longrightarrow> rows (store s) (ID a) = None)
      \<and> (\<exists>st. GetAIAssetStatus (store s') (ID a) = (Inr st, []) \<and> Status st = generating))"
proof -
  assume g: "Generating None s param = (r, s', l)"
  let ?k = "Itoa (next_id (store s))"
  let ?a = "\<lparr>ID = ?k,
             AssetType = (if Height param > 0 \<and> Width param > 0 then AssetTypeBackdrop else AssetTypeSprite),
             FilesHash = ''''\<rparr>"
  from g have r: "r = Inr \<lparr>ImageJobId = ID ?a\<rparr>" and rows: "rows (store s') (ID ?a) = Some ?a"
    by (auto simp: Generating_created)
  have "GetAIAssetStatus (store s') (ID ?a)
      = (Inr \<lparr>Status = generating,
              Result = \<lparr>JobId = ?k, Type = AssetType ?a,
                        Files = \<lparr>AIStatusFiles.ImageUrl = '''', SkeletonUrl = ''''\<rparr>\<rparr>\<rparr>, [])"
    using rows by (simp add: GetAIAssetStatus_def CheckAssetFilesHashByID_def)
  moreover have "ids_below (store s) \<longrightarrow> rows (store s) (ID ?a) = None"
    by (simp add: fresh_id)
  ultimately show ?thesis
    using r rows by (intro exI [of _ ?a]) auto
qed

theorem Generating_classification_witness:
  "(\<exists>a. fst (Generating None empty_sys cat_request) = Inr \<lparr>ImageJobId = ID a\<rparr>
      \<and> rows (store sys1) (ID a) = Some a
      \<and> AssetType a = AssetTypeSprite
      \<and> rows (store empty_sys) (ID a) = None
      \<and> (\<exists>st. GetAIAssetStatus (store sys1) (ID a) = (Inr st, []) \<and> Status st = generating))
   \<and> AssetType (the (rows (store (fst (snd (Generating None empty_sys
        \<lparr>GenerateParams.Category = [''scene''], Keyword = ''beach'', Width = 640, Height = 480\<rparr>)))) ''1''))
      = AssetTypeBackdrop
   \<and> AssetType (the (rows (store (fst (snd (Generating None empty_sys
        \<lparr>GenerateParams.Category = [''scene''], Keyword = ''beach'', Width = 0, Height = 5\<rparr>)))) ''1''))
      = AssetTypeSprite"
proof -
  have ok: "ids_below (store empty_sys)"
    using sys_ok_empty_sys by (simp add: sys_ok_def)
  have "Generating None empty_sys cat_request
          = (fst (Generating None empty_sys cat_request), sys1, [])"
    by (simp add: sys1_def Generating_created)
  from Generating_classification [OF this] ok
  have "\<exists>a. fst (Generating None empty_sys cat_request) = Inr \<lparr>ImageJobId = ID a\<rparr>
      \<and> rows (store sys1) (ID a) = Some a
      \<and> AssetType a = AssetTypeSprite
      \<and> rows (store empty_sys) (ID a) = None
      \<and> (\<exists>st. GetAIAssetStatus (store sys1) (ID a) = (Inr st, []) \<and> Status st = generating)"
    by (auto simp: cat_request_def)
  then show ?thesis
    by (simp add: Generating_created empty_sys_def empty_db_def Itoa_1)
qed

text \<open>
  C6.  Take a well-formed state in which \<open>GetAIAssetStatus\<close> answers \<open>finish\<close> for an ID,
  and any state that the core reaches from it by calls of \<open>Generating\<close> and by runs of
  started goroutines, in any number and order and with any outcome of the remote calls and
  of the store.  There \<open>GetAIAssetStatus\<close> gives the same answer for the ID: the record
  with its non-empty result marker is still the same.
\<close>

theorem finished_never_reverts:
  "sys_ok s \<Longrightarrow> step\<^sup>*\<^sup>* s s' \<Longrightarrow>
   fst (GetAIAssetStatus (store s) i) = Inr st \<Longrightarrow> Status st = finish \<Longrightarrow>
   fst (GetAIAssetStatus (store s') i) = Inr st \<and> Status st \<noteq> generating
   \<and> (\<exists>a. rows (store s) i = Some a \<and> FilesHash a \<noteq> '''' \<and> rows (store s') i = Some a)"
proof -
  assume ok: "sys_ok s" and steps: "step\<^sup>*\<^sup>* s s'"
    and res: "fst (GetAIAssetStatus (store s) i) = Inr st" and fin: "Status st = finish"
  from res obtain a where a: "rows (store s) i = Some a"
    by (auto simp: GetAIAssetStatus_def CheckAssetFilesHashByID_def split: option.splits)
  with res fin have marker: "FilesHash a \<noteq> ''''"
    by (auto simp: GetAIAssetStatus_def CheckAssetFilesHashByID_def Let_def split: if_splits)
  from marker_steps [OF steps ok a marker] have a': "rows (store s') i = Some a" by simp
  from a a' have "GetAIAssetStatus (store s') i = GetAIAssetStatus (store s) i"
    by (simp add: GetAIAssetStatus_def CheckAssetFilesHashByID_def)
  with res fin a a' marker show ?thesis by simp
qed

lemma step_sys1_sys2: "step sys1 sys2"
proof -
  have t: "tasks sys1 = [] @ (''1'', cat_request) # []"
    by (simp add: sys1_eq)
  have g: "Generating_go concat call_ok None (store sys1) ''1'' cat_request
             = (db_after_ok, snd (Generating_go concat call_ok None (store sys1) ''1'' cat_request))"
    by (simp add: db_after_ok_def)
  from step.run [OF t g] show ?thesis by (simp add: sys2_def)
qed

lemma step_sys2_sys3: "step sys2 sys3"
  by (rule step.dispatch [of None sys2 cat_request _ _ "[]"])
    (simp add: sys3_def Generating_created)

theorem finished_never_reverts_witness:
  "fst (GetAIAssetStatus (store sys2) ''1'')
     = Inr \<lparr>Status = finish,
            Result = \<lparr>JobId = ''1'', Type = AssetTypeSprite,
                      Files = \<lparr>AIStatusFiles.ImageUrl = ''https://cdn/x.png'', SkeletonUrl = ''''\<rparr>\<rparr>\<rparr>
   \<and> fst (GetAIAssetStatus (store sys3) ''1'')
     = Inr \<lparr>Status = finish,
            Result = \<lparr>JobId = ''1'', Type = AssetTypeSprite,
                      Files = \<lparr>AIStatusFiles.ImageUrl = ''https://cdn/x.png'', SkeletonUrl = ''''\<rparr>\<rparr>\<rparr>
   \<and> tasks sys3 \<noteq> []"
proof -
  let ?st = "\<lparr>Status = finish,
            Result = \<lparr>JobId = ''1'', Type = AssetTypeSprite,
                      Files = \<lparr>AIStatusFiles.ImageUrl = ''https://cdn/x.png'', SkeletonUrl = ''''\<rparr>\<rparr>\<rparr>"
  have ok: "sys_ok sys2"
    by (rule sys_ok_step [OF step_sys1_sys2 sys_ok_sys1])
  have steps: "step\<^sup>*\<^sup>* sys2 sys3"
    using step_sys2_sys3 by (rule r_into_rtranclp)
  have res: "fst (GetAIAssetStatus (store sys2) ''1'') = Inr ?st"
    by (simp add: sys2_def db_after_ok_eq GetAIAssetStatus_def CheckAssetFilesHashByID_def)
  have "tasks sys3 \<noteq> []"
    by (simp add: sys3_def Generating_created)
  with finished_never_reverts [OF ok steps res] res show ?thesis by simp
qed

text \<open>
  C2, evaluated on the scenario's job.  With the remote service down, the goroutine logs
  the failed call and goes on to \<open>UpdateAssetByID\<close>: the store carries out one write to
  the result marker of job 1, with the empty string as payload.  With the service up
  there is one write, with the image URL; with the service up and the update failing there
  is none.
\<close>

theorem Generating_go_writes_after_failed_call:
  "Generating_go concat call_down None (store sys1) ''1'' cat_request
     = (db_after_down, [failed_to_call (ErrCall ''connection refused'')])
   \<and> marker_writes (store sys1) = []
   \<and> marker_writes db_after_down = [(''1'', '''')]
   \<and> map_option FilesHash (rows db_after_down ''1'') = Some ''''
   \<and> marker_writes db_after_ok = [(''1'', ''https://cdn/x.png'')]
   \<and> marker_writes db_after_update_fault = []"
proof -
  have "Generating_go concat call_down None (store sys1) ''1'' cat_request
     = (db_after_down, [failed_to_call (ErrCall ''connection refused'')])"
    unfolding db_after_down_def
    by (simp add: sys1_eq Generating_go_def UpdateAssetByID_def call_down_def Let_def)
  then show ?thesis
    by (simp add: db_after_down_eq db_after_ok_eq db_after_update_fault_eq sys1_eq)
qed

section \<open>Properties of \<open>AddUserAsset\<close>\<close>





















end
